theory Spec2Isabelle
  imports Main "HOL-Library.Sublist"
begin

section \<open>Byte strings, errors and lower-casing\<close>

text \<open>
  The package \<^verbatim>\<open>dmark\<close> declares seven small types with a \<^verbatim>\<open>MarshalText\<close> and an
  \<^verbatim>\<open>UnmarshalText\<close> method each. A Go \<^verbatim>\<open>[]byte\<close> and a Go \<^verbatim>\<open>string\<close> are both
  sequences of bytes; here they are \<^typ>\<open>string\<close>, whose characters are 8-bit.

  \<^verbatim>\<open>fmt.Errorf(format, arg)\<close> is kept as a value holding the format string and the one
  operand of its \<^verbatim>\<open>%q\<close> verb, unformatted: the message is determined by the two.
\<close>

datatype error = Errorf string string

text \<open>
  \<^verbatim>\<open>strings.ToLower\<close> of the Go standard library scans the bytes of its argument. When all
  of them are below \<^verbatim>\<open>utf8.RuneSelf\<close> (0x80) the string is ASCII: it is returned as it is
  when it has no byte in \<^verbatim>\<open>'A'..'Z'\<close>, and otherwise rebuilt with \<^verbatim>\<open>c += 'a' - 'A'\<close> on
  each such byte. A string holding a byte from 0x80 on goes to
  \<^verbatim>\<open>strings.Map(unicode.ToLower, s)\<close>, which depends on the Unicode tables of the
  standard library; that branch is the parameter \<open>mapLower\<close> of the model.
\<close>

definition isUpperByte :: "char \<Rightarrow> bool" where
  "isUpperByte c = ((65::nat) \<le> of_char c \<and> of_char c \<le> (90::nat))"

definition lowerByte :: "char \<Rightarrow> char" where
  "lowerByte c = (if isUpperByte c then char_of (of_char c + (32::nat)) else c)"

definition isASCII :: "string \<Rightarrow> bool" where
  "isASCII s = list_all (\<lambda>c. of_char c < (128::nat)) s"

definition hasUpper :: "string \<Rightarrow> bool" where
  "hasUpper s = list_ex isUpperByte s"

definition ToLower :: "(string \<Rightarrow> string) \<Rightarrow> string \<Rightarrow> string" where
  "ToLower mapLower s =
     (if isASCII s then (if \<not> hasUpper s then s else map lowerByte s)
      else mapLower s)"

section \<open>Alignment\<close>

text \<open>
  The six enumerations other than \<^verbatim>\<open>Result\<close> are Go \<^verbatim>\<open>int\<close> types with constants
  numbered by \<^verbatim>\<open>iota\<close>. The methods only compare them with their constants, so they are
  integers here, and every value a conversion from a number can give is among them.
\<close>

type_synonym Alignment = int

definition AlignmentRelaxed :: Alignment where "AlignmentRelaxed = 0"
definition AlignmentStrict :: Alignment where "AlignmentStrict = 1"

definition Alignment_members :: "Alignment list" where
  "Alignment_members = [AlignmentRelaxed, AlignmentStrict]"

definition Alignment_MarshalText :: "Alignment \<Rightarrow> string \<times> error option" where
  "Alignment_MarshalText a =
     (if a = AlignmentRelaxed then (''relaxed'', None)
      else if a = AlignmentStrict then (''strict'', None)
      else (''unknown'', None))"

text \<open>
  A method with a pointer receiver takes the value stored behind the pointer and returns
  the value stored there afterwards, together with the returned error (\<open>None\<close> is
  \<^verbatim>\<open>nil\<close>).
\<close>

definition Alignment_UnmarshalText ::
  "(string \<Rightarrow> string) \<Rightarrow> Alignment \<Rightarrow> string \<Rightarrow> Alignment \<times> error option" where
  "Alignment_UnmarshalText mapLower a text =
     (let s = ToLower mapLower text in
      if s = ''r'' then (AlignmentRelaxed, None)
      else if s = ''s'' then (AlignmentStrict, None)
      else (a, Some (Errorf ''unexpected Alignment value %q'' text)))"


section \<open>Disposition\<close>

type_synonym Disposition = int

definition DispositionNone :: Disposition where "DispositionNone = 0"
definition DispositionQuarantine :: Disposition where "DispositionQuarantine = 1"
definition DispositionReject :: Disposition where "DispositionReject = 2"

definition Disposition_members :: "Disposition list" where
  "Disposition_members = [DispositionNone, DispositionQuarantine, DispositionReject]"

definition Disposition_MarshalText :: "Disposition \<Rightarrow> string \<times> error option" where
  "Disposition_MarshalText disp =
     (if disp = DispositionNone then (''none'', None)
      else if disp = DispositionQuarantine then (''quarantine'', None)
      else if disp = DispositionReject then (''reject'', None)
      else (''unknown'', None))"

definition Disposition_UnmarshalText ::
  "(string \<Rightarrow> string) \<Rightarrow> Disposition \<Rightarrow> string \<Rightarrow> Disposition \<times> error option" where
  "Disposition_UnmarshalText mapLower disp text =
     (let s = ToLower mapLower text in
      if s = ''none'' then (DispositionNone, None)
      else if s = ''quarantine'' then (DispositionQuarantine, None)
      else if s = ''reject'' then (DispositionReject, None)
      else (disp, Some (Errorf ''unexpected Disposition value %q'' text)))"


section \<open>Result\<close>

text \<open>
  \<^verbatim>\<open>Result\<close> is a \<^verbatim>\<open>bool\<close>. Its \<^verbatim>\<open>MarshalText\<close> switches on
  \<^verbatim>\<open>strings.ToLower(string(text))\<close>, where \<^verbatim>\<open>text\<close> is the method's own named result, which
  Go initialises to \<^verbatim>\<open>nil\<close>: the empty string. The receiver is not read.
\<close>

type_synonym Result = bool

definition Result_MarshalText :: "(string \<Rightarrow> string) \<Rightarrow> Result \<Rightarrow> string \<times> error option" where
  "Result_MarshalText mapLower r =
     (let text = [] in
      if ToLower mapLower text = ''true'' then (''true'', None)
      else (''false'', None))"

definition Result_UnmarshalText ::
  "(string \<Rightarrow> string) \<Rightarrow> Result \<Rightarrow> string \<Rightarrow> Result \<times> error option" where
  "Result_UnmarshalText mapLower r text = (ToLower mapLower text = ''pass'', None)"


section \<open>PolicyOverride\<close>

type_synonym PolicyOverride = int

definition PolicyOverrideForwarded :: PolicyOverride where "PolicyOverrideForwarded = 0"
definition PolicyOverrideSampledOut :: PolicyOverride where "PolicyOverrideSampledOut = 1"
definition PolicyOverrideTrustedForwarder :: PolicyOverride where
  "PolicyOverrideTrustedForwarder = 2"
definition PolicyOverrideMailingList :: PolicyOverride where "PolicyOverrideMailingList = 3"
definition PolicyOverrideLocalPolicy :: PolicyOverride where "PolicyOverrideLocalPolicy = 4"
definition PolicyOverrideOther :: PolicyOverride where "PolicyOverrideOther = 5"

definition PolicyOverride_members :: "PolicyOverride list" where
  "PolicyOverride_members =
     [PolicyOverrideForwarded, PolicyOverrideSampledOut, PolicyOverrideTrustedForwarder,
      PolicyOverrideMailingList, PolicyOverrideLocalPolicy, PolicyOverrideOther]"

definition PolicyOverride_MarshalText :: "PolicyOverride \<Rightarrow> string \<times> error option" where
  "PolicyOverride_MarshalText po =
     (if po = PolicyOverrideForwarded then (''forwarded'', None)
      else if po = PolicyOverrideSampledOut then (''sampled_out'', None)
      else if po = PolicyOverrideTrustedForwarder then (''trusted_forwarder'', None)
      else if po = PolicyOverrideMailingList then (''mailing_list'', None)
      else if po = PolicyOverrideLocalPolicy then (''local_policy'', None)
      else if po = PolicyOverrideOther then (''other'', None)
      else (''unknown'', None))"

definition PolicyOverride_UnmarshalText ::
  "(string \<Rightarrow> string) \<Rightarrow> PolicyOverride \<Rightarrow> string \<Rightarrow> PolicyOverride \<times> error option" where
  "PolicyOverride_UnmarshalText mapLower po text =
     (let s = ToLower mapLower text in
      if s = ''forwarded'' then (PolicyOverrideForwarded, None)
      else if s = ''sampled_out'' then (PolicyOverrideSampledOut, None)
      else if s = ''trusted_forwarder'' then (PolicyOverrideTrustedForwarder, None)
      else if s = ''mailing_list'' then (PolicyOverrideMailingList, None)
      else if s = ''local_policy'' then (PolicyOverrideLocalPolicy, None)
      else if s = ''other'' then (PolicyOverrideOther, None)
      else (po, Some (Errorf ''unexpected PolicyOverride value %q'' text)))"

definition PolicyOverride_vocabulary :: "string list" where
  "PolicyOverride_vocabulary =
     [''forwarded'', ''sampled_out'', ''trusted_forwarder'', ''mailing_list'',
      ''local_policy'', ''other'']"

section \<open>DKIMResult\<close>

type_synonym DKIMResult = int

definition DKIMResultNone :: DKIMResult where "DKIMResultNone = 0"
definition DKIMResultPass :: DKIMResult where "DKIMResultPass = 1"
definition DKIMResultFail :: DKIMResult where "DKIMResultFail = 2"
definition DKIMResultPolicy :: DKIMResult where "DKIMResultPolicy = 3"
definition DKIMResultNeutral :: DKIMResult where "DKIMResultNeutral = 4"
definition DKIMResultTempError :: DKIMResult where "DKIMResultTempError = 5"
definition DKIMResultPermError :: DKIMResult where "DKIMResultPermError = 6"

definition DKIMResult_members :: "DKIMResult list" where
  "DKIMResult_members =
     [DKIMResultNone, DKIMResultPass, DKIMResultFail, DKIMResultPolicy, DKIMResultNeutral,
      DKIMResultTempError, DKIMResultPermError]"

definition DKIMResult_MarshalText :: "DKIMResult \<Rightarrow> string \<times> error option" where
  "DKIMResult_MarshalText dkimr =
     (if dkimr = DKIMResultNone then (''none'', None)
      else if dkimr = DKIMResultPass then (''pass'', None)
      else if dkimr = DKIMResultFail then (''fail'', None)
      else if dkimr = DKIMResultPolicy then (''policy'', None)
      else if dkimr = DKIMResultNeutral then (''neutral'', None)
      else if dkimr = DKIMResultTempError then (''temperror'', None)
      else if dkimr = DKIMResultPermError then (''permerror'', None)
      else (''unknown'', None))"

definition DKIMResult_UnmarshalText ::
  "(string \<Rightarrow> string) \<Rightarrow> DKIMResult \<Rightarrow> string \<Rightarrow> DKIMResult \<times> error option" where
  "DKIMResult_UnmarshalText mapLower dkimr text =
     (let s = ToLower mapLower text in
      if s = ''none'' then (DKIMResultNone, None)
      else if s = ''pass'' then (DKIMResultPass, None)
      else if s = ''fail'' then (DKIMResultFail, None)
      else if s = ''policy'' then (DKIMResultPolicy, None)
      else if s = ''neutral'' then (DKIMResultNeutral, None)
      else if s = ''temperror'' then (DKIMResultTempError, None)
      else if s = ''permerror'' then (DKIMResultPermError, None)
      else (dkimr, Some (Errorf ''unexpected SPFResult value %q'' text)))"


section \<open>SPFDomainScope\<close>

type_synonym SPFDomainScope = int

definition SPFDomainScopeHelo :: SPFDomainScope where "SPFDomainScopeHelo = 0"
definition SPFDomainScopeMFrom :: SPFDomainScope where "SPFDomainScopeMFrom = 1"

definition SPFDomainScope_members :: "SPFDomainScope list" where
  "SPFDomainScope_members = [SPFDomainScopeHelo, SPFDomainScopeMFrom]"

definition SPFDomainScope_MarshalText :: "SPFDomainScope \<Rightarrow> string \<times> error option" where
  "SPFDomainScope_MarshalText sds =
     (if sds = SPFDomainScopeHelo then (''helo'', None)
      else if sds = SPFDomainScopeMFrom then (''mfrom'', None)
      else (''unknown'', None))"

definition SPFDomainScope_UnmarshalText ::
  "(string \<Rightarrow> string) \<Rightarrow> SPFDomainScope \<Rightarrow> string \<Rightarrow> SPFDomainScope \<times> error option" where
  "SPFDomainScope_UnmarshalText mapLower sds text =
     (let s = ToLower mapLower text in
      if s = ''helo'' then (SPFDomainScopeHelo, None)
      else if s = ''mfrom'' then (SPFDomainScopeMFrom, None)
      else (sds, Some (Errorf ''unexpected SPFDomainScope value %q'' text)))"


section \<open>SPFResult\<close>

type_synonym SPFResult = int

definition SPFResultNone :: SPFResult where "SPFResultNone = 0"
definition SPFResultNeutral :: SPFResult where "SPFResultNeutral = 1"
definition SPFResultPass :: SPFResult where "SPFResultPass = 2"
definition SPFResultFail :: SPFResult where "SPFResultFail = 3"
definition SPFResultSoftFail :: SPFResult where "SPFResultSoftFail = 4"
definition SPFResultTempError :: SPFResult where "SPFResultTempError = 5"
definition SPFResultPermError :: SPFResult where "SPFResultPermError = 6"

definition SPFResult_members :: "SPFResult list" where
  "SPFResult_members =
     [SPFResultNone, SPFResultNeutral, SPFResultPass, SPFResultFail, SPFResultSoftFail,
      SPFResultTempError, SPFResultPermError]"

definition SPFResult_MarshalText :: "SPFResult \<Rightarrow> string \<times> error option" where
  "SPFResult_MarshalText spfr =
     (if spfr = SPFResultNone then (''none'', None)
      else if spfr = SPFResultNeutral then (''neutral'', None)
      else if spfr = SPFResultPass then (''pass'', None)
      else if spfr = SPFResultFail then (''fail'', None)
      else if spfr = SPFResultSoftFail then (''softfail'', None)
      else if spfr = SPFResultTempError then (''temperror'', None)
      else if spfr = SPFResultPermError then (''permerror'', None)
      else (''unknown'', None))"

definition SPFResult_UnmarshalText ::
  "(string \<Rightarrow> string) \<Rightarrow> SPFResult \<Rightarrow> string \<Rightarrow> SPFResult \<times> error option" where
  "SPFResult_UnmarshalText mapLower spfr text =
     (let s = ToLower mapLower text in
      if s = ''none'' then (SPFResultNone, None)
      else if s = ''neutral'' then (SPFResultNeutral, None)
      else if s = ''pass'' then (SPFResultPass, None)
      else if s = ''fail'' then (SPFResultFail, None)
      else if s = ''softfail'' then (SPFResultSoftFail, None)
      else if s = ''temperror'' then (SPFResultTempError, None)
      else if s = ''permerror'' then (SPFResultPermError, None)
      else (spfr, Some (Errorf ''unexpected SPFResult value %q'' text)))"


section \<open>SPFAuthResult\<close>

record SPFAuthResult =
  Domain :: string
  Scope :: SPFDomainScope
  Result :: SPFResult

text \<open>
  The value of the composite literal \<^verbatim>\<open>SPFAuthResult{}\<close>: every field holds the zero
  value of its type.
\<close>

definition SPFAuthResult_zero :: SPFAuthResult where
  "SPFAuthResult_zero = \<lparr>Domain = [], Scope = 0, Result = 0\<rparr>"

section \<open>Letter case of tokens and the text of errors\<close>

text \<open>
  Two byte strings differ only in letter case when they agree after each byte in
  \<^verbatim>\<open>'A'..'Z'\<close> is replaced by its lower-case letter.
\<close>

definition differs_only_in_case :: "string \<Rightarrow> string \<Rightarrow> bool" where
  "differs_only_in_case t tok = (map lowerByte t = map lowerByte tok)"

text \<open>The error's format string names the enumeration.\<close>

definition names_enum :: "string \<Rightarrow> error \<Rightarrow> bool" where
  "names_enum name e = (case e of Errorf format arg \<Rightarrow> sublist name format)"

definition raw_token :: "error \<Rightarrow> string" where
  "raw_token e = (case e of Errorf format arg \<Rightarrow> arg)"

section \<open>Lower-casing of ASCII tokens\<close>

lemma lowerByte_ascii: "of_char (lowerByte c) < (128::nat) \<Longrightarrow> of_char c < (128::nat)"
  by (auto simp: lowerByte_def isUpperByte_def split: if_splits)

lemma isASCII_map_lowerByte: "isASCII (map lowerByte t) \<Longrightarrow> isASCII t"
  by (induction t) (auto simp: isASCII_def dest: lowerByte_ascii)

lemma map_lowerByte_no_upper: "\<not> hasUpper s \<Longrightarrow> map lowerByte s = s"
  by (induction s) (auto simp: hasUpper_def lowerByte_def)

lemma ToLower_ascii: "isASCII s \<Longrightarrow> ToLower mapLower s = map lowerByte s"
  by (simp add: ToLower_def map_lowerByte_no_upper)

lemma ToLower_token: "isASCII tok \<Longrightarrow> \<not> hasUpper tok \<Longrightarrow> ToLower mapLower tok = tok"
  by (simp add: ToLower_def)

lemma ToLower_differs:
  assumes "differs_only_in_case t tok" and "isASCII tok" and "\<not> hasUpper tok"
  shows "ToLower mapLower t = tok"
proof -
  have tok: "map lowerByte tok = tok"
    using assms(3) by (rule map_lowerByte_no_upper)
  with assms(1) have eq: "map lowerByte t = tok"
    by (simp add: differs_only_in_case_def)
  with assms(2) have "isASCII t"
    using isASCII_map_lowerByte [of t] by simp
  then show ?thesis
    using eq by (simp add: ToLower_ascii)
qed

lemmas member_defs =
  AlignmentRelaxed_def AlignmentStrict_def Alignment_members_def
  DispositionNone_def DispositionQuarantine_def DispositionReject_def Disposition_members_def
  PolicyOverrideForwarded_def PolicyOverrideSampledOut_def PolicyOverrideTrustedForwarder_def
  PolicyOverrideMailingList_def PolicyOverrideLocalPolicy_def PolicyOverrideOther_def
  PolicyOverride_members_def
  DKIMResultNone_def DKIMResultPass_def DKIMResultFail_def DKIMResultPolicy_def
  DKIMResultNeutral_def DKIMResultTempError_def DKIMResultPermError_def DKIMResult_members_def
  SPFDomainScopeHelo_def SPFDomainScopeMFrom_def SPFDomainScope_members_def
  SPFResultNone_def SPFResultNeutral_def SPFResultPass_def SPFResultFail_def
  SPFResultSoftFail_def SPFResultTempError_def SPFResultPermError_def SPFResult_members_def

lemmas lower_defs = isASCII_def hasUpper_def isUpperByte_def

lemma Alignment_tokens_lower:
  "m \<in> set Alignment_members \<Longrightarrow>
     isASCII (fst (Alignment_MarshalText m)) \<and> \<not> hasUpper (fst (Alignment_MarshalText m))"
  by (auto simp: member_defs Alignment_MarshalText_def lower_defs)

lemma Disposition_tokens_lower:
  "m \<in> set Disposition_members \<Longrightarrow>
     isASCII (fst (Disposition_MarshalText m)) \<and> \<not> hasUpper (fst (Disposition_MarshalText m))"
  by (auto simp: member_defs Disposition_MarshalText_def lower_defs)

lemma PolicyOverride_tokens_lower:
  "m \<in> set PolicyOverride_members \<Longrightarrow>
     isASCII (fst (PolicyOverride_MarshalText m)) \<and> \<not> hasUpper (fst (PolicyOverride_MarshalText m))"
  by (auto simp: member_defs PolicyOverride_MarshalText_def lower_defs)

lemma DKIMResult_tokens_lower:
  "m \<in> set DKIMResult_members \<Longrightarrow>
     isASCII (fst (DKIMResult_MarshalText m)) \<and> \<not> hasUpper (fst (DKIMResult_MarshalText m))"
  by (auto simp: member_defs DKIMResult_MarshalText_def lower_defs)

lemma SPFDomainScope_tokens_lower:
  "m \<in> set SPFDomainScope_members \<Longrightarrow>
     isASCII (fst (SPFDomainScope_MarshalText m)) \<and> \<not> hasUpper (fst (SPFDomainScope_MarshalText m))"
  by (auto simp: member_defs SPFDomainScope_MarshalText_def lower_defs)

lemma SPFResult_tokens_lower:
  "m \<in> set SPFResult_members \<Longrightarrow>
     isASCII (fst (SPFResult_MarshalText m)) \<and> \<not> hasUpper (fst (SPFResult_MarshalText m))"
  by (auto simp: member_defs SPFResult_MarshalText_def lower_defs)

lemma Result_MarshalText_eq: "Result_MarshalText mapLower r = (''false'', None)"
  by (simp add: Result_MarshalText_def ToLower_def lower_defs)

lemma Disposition_roundtrip:
  assumes "m \<in> set Disposition_members"
  shows "Disposition_UnmarshalText mapLower v (fst (Disposition_MarshalText m)) = (m, None)"
proof -
  have "ToLower mapLower (fst (Disposition_MarshalText m)) = fst (Disposition_MarshalText m)"
    using Disposition_tokens_lower [OF assms] by (simp add: ToLower_token)
  then show ?thesis
    using assms
    by (auto simp: Disposition_UnmarshalText_def Disposition_MarshalText_def member_defs)
qed

lemma PolicyOverride_roundtrip:
  assumes "m \<in> set PolicyOverride_members"
  shows "PolicyOverride_UnmarshalText mapLower v (fst (PolicyOverride_MarshalText m)) = (m, None)"
proof -
  have "ToLower mapLower (fst (PolicyOverride_MarshalText m)) = fst (PolicyOverride_MarshalText m)"
    using PolicyOverride_tokens_lower [OF assms] by (simp add: ToLower_token)
  then show ?thesis
    using assms
    by (auto simp: PolicyOverride_UnmarshalText_def PolicyOverride_MarshalText_def member_defs)
qed

lemma DKIMResult_roundtrip:
  assumes "m \<in> set DKIMResult_members"
  shows "DKIMResult_UnmarshalText mapLower v (fst (DKIMResult_MarshalText m)) = (m, None)"
proof -
  have "ToLower mapLower (fst (DKIMResult_MarshalText m)) = fst (DKIMResult_MarshalText m)"
    using DKIMResult_tokens_lower [OF assms] by (simp add: ToLower_token)
  then show ?thesis
    using assms
    by (auto simp: DKIMResult_UnmarshalText_def DKIMResult_MarshalText_def member_defs)
qed

lemma SPFDomainScope_roundtrip:
  assumes "m \<in> set SPFDomainScope_members"
  shows "SPFDomainScope_UnmarshalText mapLower v (fst (SPFDomainScope_MarshalText m)) = (m, None)"
proof -
  have "ToLower mapLower (fst (SPFDomainScope_MarshalText m)) = fst (SPFDomainScope_MarshalText m)"
    using SPFDomainScope_tokens_lower [OF assms] by (simp add: ToLower_token)
  then show ?thesis
    using assms
    by (auto simp: SPFDomainScope_UnmarshalText_def SPFDomainScope_MarshalText_def member_defs)
qed

lemma SPFResult_roundtrip:
  assumes "m \<in> set SPFResult_members"
  shows "SPFResult_UnmarshalText mapLower v (fst (SPFResult_MarshalText m)) = (m, None)"
proof -
  have "ToLower mapLower (fst (SPFResult_MarshalText m)) = fst (SPFResult_MarshalText m)"
    using SPFResult_tokens_lower [OF assms] by (simp add: ToLower_token)
  then show ?thesis
    using assms
    by (auto simp: SPFResult_UnmarshalText_def SPFResult_MarshalText_def member_defs)
qed

section \<open>Round trip of encode and decode\<close>

text \<open>
  Claim C1, as amended. For the five enumerations \<^verbatim>\<open>Disposition\<close>, \<^verbatim>\<open>PolicyOverride\<close>,
  \<^verbatim>\<open>DKIMResult\<close>, \<^verbatim>\<open>SPFDomainScope\<close> and \<^verbatim>\<open>SPFResult\<close> and every defined member \<open>m\<close>,
  \<^verbatim>\<open>UnmarshalText\<close> of the token that \<^verbatim>\<open>MarshalText\<close> gives for \<open>m\<close> stores \<open>m\<close> and
  returns no error, whatever was stored before; the \<^verbatim>\<open>Result\<close> value \<^verbatim>\<open>false\<close> comes
  back as \<^verbatim>\<open>false\<close>. For every defined member of the six integer enumerations, and for
  \<^verbatim>\<open>Result\<close>, the encoded token is its own lower-case form.
\<close>

theorem C1_roundtrip_strict_enumerations:
  "(m \<in> set Disposition_members \<longrightarrow>
      Disposition_UnmarshalText mapLower v (fst (Disposition_MarshalText m)) = (m, None)) \<and>
   (m \<in> set PolicyOverride_members \<longrightarrow>
      PolicyOverride_UnmarshalText mapLower v (fst (PolicyOverride_MarshalText m)) = (m, None)) \<and>
   (m \<in> set DKIMResult_members \<longrightarrow>
      DKIMResult_UnmarshalText mapLower v (fst (DKIMResult_MarshalText m)) = (m, None)) \<and>
   (m \<in> set SPFDomainScope_members \<longrightarrow>
      SPFDomainScope_UnmarshalText mapLower v (fst (SPFDomainScope_MarshalText m)) = (m, None)) \<and>
   (m \<in> set SPFResult_members \<longrightarrow>
      SPFResult_UnmarshalText mapLower v (fst (SPFResult_MarshalText m)) = (m, None)) \<and>
   Result_UnmarshalText mapLower r (fst (Result_MarshalText mapLower False)) = (False, None) \<and>
   (m \<in> set Alignment_members \<longrightarrow>
      ToLower mapLower (fst (Alignment_MarshalText m)) = fst (Alignment_MarshalText m)) \<and>
   (m \<in> set Disposition_members \<longrightarrow>
      ToLower mapLower (fst (Disposition_MarshalText m)) = fst (Disposition_MarshalText m)) \<and>
   (m \<in> set PolicyOverride_members \<longrightarrow>
      ToLower mapLower (fst (PolicyOverride_MarshalText m)) = fst (PolicyOverride_MarshalText m)) \<and>
   (m \<in> set DKIMResult_members \<longrightarrow>
      ToLower mapLower (fst (DKIMResult_MarshalText m)) = fst (DKIMResult_MarshalText m)) \<and>
   (m \<in> set SPFDomainScope_members \<longrightarrow>
      ToLower mapLower (fst (SPFDomainScope_MarshalText m)) = fst (SPFDomainScope_MarshalText m)) \<and>
   (m \<in> set SPFResult_members \<longrightarrow>
      ToLower mapLower (fst (SPFResult_MarshalText m)) = fst (SPFResult_MarshalText m)) \<and>
   ToLower mapLower (fst (Result_MarshalText mapLower r)) = fst (Result_MarshalText mapLower r)"
proof -
  have res: "Result_UnmarshalText mapLower r (fst (Result_MarshalText mapLower False)) = (False, None)"
    by (simp add: Result_MarshalText_eq Result_UnmarshalText_def ToLower_def lower_defs)
  have low: "ToLower mapLower (fst (Result_MarshalText mapLower r)) = fst (Result_MarshalText mapLower r)"
    by (simp add: Result_MarshalText_eq ToLower_def lower_defs)
  show ?thesis
    using res low
    by (simp add: Disposition_roundtrip PolicyOverride_roundtrip DKIMResult_roundtrip
        SPFDomainScope_roundtrip SPFResult_roundtrip ToLower_token
        Alignment_tokens_lower Disposition_tokens_lower PolicyOverride_tokens_lower
        DKIMResult_tokens_lower SPFDomainScope_tokens_lower SPFResult_tokens_lower)
qed

text \<open>The round trip at the member numbered 1 of each enumeration.\<close>

theorem C1_roundtrip_strict_enumerations_witness:
  "1 \<in> set Disposition_members \<and> 1 \<in> set PolicyOverride_members \<and> 1 \<in> set DKIMResult_members \<and>
   1 \<in> set SPFDomainScope_members \<and> 1 \<in> set SPFResult_members \<and> 1 \<in> set Alignment_members \<and>
   Disposition_UnmarshalText id 0 ''quarantine'' = (1, None) \<and>
   PolicyOverride_UnmarshalText id 0 ''sampled_out'' = (1, None) \<and>
   DKIMResult_UnmarshalText id 0 ''pass'' = (1, None) \<and>
   SPFDomainScope_UnmarshalText id 0 ''mfrom'' = (1, None) \<and>
   SPFResult_UnmarshalText id 0 ''neutral'' = (1, None) \<and>
   ToLower id ''strict'' = ''strict''"
proof -
  have mem: "1 \<in> set Disposition_members" "1 \<in> set PolicyOverride_members"
    "1 \<in> set DKIMResult_members" "1 \<in> set SPFDomainScope_members"
    "1 \<in> set SPFResult_members" "1 \<in> set Alignment_members"
    by (simp_all add: member_defs)
  have enc: "fst (Disposition_MarshalText 1) = ''quarantine''"
    "fst (PolicyOverride_MarshalText 1) = ''sampled_out''"
    "fst (DKIMResult_MarshalText 1) = ''pass''"
    "fst (SPFDomainScope_MarshalText 1) = ''mfrom''"
    "fst (SPFResult_MarshalText 1) = ''neutral''"
    "fst (Alignment_MarshalText 1) = ''strict''"
    by (simp_all add: member_defs Disposition_MarshalText_def PolicyOverride_MarshalText_def
        DKIMResult_MarshalText_def SPFDomainScope_MarshalText_def SPFResult_MarshalText_def
        Alignment_MarshalText_def)
  show ?thesis
    using C1_roundtrip_strict_enumerations [of 1 id 0 False] mem enc by simp
qed

text \<open>
  Claim C1 as stated fails for \<^verbatim>\<open>Alignment\<close> and for \<^verbatim>\<open>Result\<close>: the tokens
  \<^verbatim>\<open>relaxed\<close> and \<^verbatim>\<open>strict\<close> that \<^verbatim>\<open>Alignment.MarshalText\<close> writes are rejected by
  \<^verbatim>\<open>Alignment.UnmarshalText\<close>, which knows \<^verbatim>\<open>r\<close> and \<^verbatim>\<open>s\<close> only, and the \<^verbatim>\<open>Result\<close>
  value \<^verbatim>\<open>true\<close> comes back as \<^verbatim>\<open>false\<close>.
\<close>

theorem C1_roundtrip_counterexample:
  "Alignment_UnmarshalText id AlignmentRelaxed (fst (Alignment_MarshalText AlignmentRelaxed)) =
     (AlignmentRelaxed, Some (Errorf ''unexpected Alignment value %q'' ''relaxed'')) \<and>
   Alignment_UnmarshalText id AlignmentRelaxed (fst (Alignment_MarshalText AlignmentStrict)) =
     (AlignmentRelaxed, Some (Errorf ''unexpected Alignment value %q'' ''strict'')) \<and>
   Result_UnmarshalText id True (fst (Result_MarshalText id True)) = (False, None)"
  by (simp add: Alignment_UnmarshalText_def Alignment_MarshalText_def member_defs
      Result_MarshalText_eq Result_UnmarshalText_def ToLower_def lower_defs)

section \<open>Encoding of Result\<close>

text \<open>
  Claim C2. \<^verbatim>\<open>Result.MarshalText\<close> returns the token \<^verbatim>\<open>false\<close> and a nil error for
  every receiver, so encoding \<^verbatim>\<open>true\<close> does not give the token \<^verbatim>\<open>true\<close>.
\<close>

theorem C2_Result_MarshalText_always_false:
  "Result_MarshalText mapLower r = (''false'', None) \<and>
   fst (Result_MarshalText mapLower True) \<noteq> ''true''"
  by (simp add: Result_MarshalText_def ToLower_def lower_defs)

section \<open>Vocabularies\<close>


lemma pass_lower: "isASCII ''pass'' \<and> \<not> hasUpper ''pass''"
  by (simp add: lower_defs)

section \<open>Decoding of Result\<close>

text \<open>
  Claim C3, as amended. \<^verbatim>\<open>Result.UnmarshalText\<close> never fails: for every token it returns
  a nil error and stores \<^verbatim>\<open>true\<close> if and only if the lower-case form of the token is
  \<^verbatim>\<open>pass\<close>, so every other token, garbage included, is stored as \<^verbatim>\<open>false\<close>; a token
  that differs from \<^verbatim>\<open>pass\<close> only in letter case is stored as \<^verbatim>\<open>true\<close>.
\<close>

theorem C3_Result_UnmarshalText_never_fails:
  "snd (Result_UnmarshalText mapLower r t) = None \<and>
   fst (Result_UnmarshalText mapLower r t) = (ToLower mapLower t = ''pass'') \<and>
   (differs_only_in_case t ''pass'' \<longrightarrow> fst (Result_UnmarshalText mapLower r t) = True)"
  using pass_lower by (simp add: Result_UnmarshalText_def ToLower_differs)

text \<open>The token \<^verbatim>\<open>Pass\<close> is stored as \<^verbatim>\<open>true\<close>, the token \<^verbatim>\<open>garbage\<close> as \<^verbatim>\<open>false\<close>.\<close>

theorem C3_Result_UnmarshalText_never_fails_witness:
  "differs_only_in_case ''Pass'' ''pass'' \<and>
   Result_UnmarshalText id False ''Pass'' = (True, None) \<and>
   Result_UnmarshalText id True ''garbage'' = (False, None)"
proof -
  have d: "differs_only_in_case ''Pass'' ''pass''"
    by code_simp
  have g: "ToLower id ''garbage'' \<noteq> ''pass''"
    by code_simp
  show ?thesis
    using d g C3_Result_UnmarshalText_never_fails [of id False "''Pass''"]
      C3_Result_UnmarshalText_never_fails [of id True "''garbage''"]
    by (auto simp: prod_eq_iff)
qed

text \<open>
  Claim C3 as stated has tokens that differ from \<^verbatim>\<open>pass\<close> only in case decode to
  \<^verbatim>\<open>false\<close>; the token \<^verbatim>\<open>PASS\<close> is such a token and is stored as \<^verbatim>\<open>true\<close>.
\<close>

theorem C3_uppercase_pass_counterexample:
  "differs_only_in_case ''PASS'' ''pass'' \<and> ''PASS'' \<noteq> ''pass'' \<and>
   Result_UnmarshalText id False ''PASS'' = (True, None)"
  by code_simp

section \<open>Decoding of Alignment\<close>

text \<open>
  Claim C4. \<^verbatim>\<open>Alignment.UnmarshalText\<close> succeeds exactly on the tokens whose lower-case
  form is \<^verbatim>\<open>r\<close> (stored as \<^verbatim>\<open>AlignmentRelaxed\<close>) or \<^verbatim>\<open>s\<close> (stored as
  \<^verbatim>\<open>AlignmentStrict\<close>); every other token is rejected with an error, and so are the two
  tokens \<^verbatim>\<open>relaxed\<close> and \<^verbatim>\<open>strict\<close> that \<^verbatim>\<open>Alignment.MarshalText\<close> writes.
\<close>

theorem C4_Alignment_UnmarshalText_exact:
  "(ToLower mapLower t = ''r'' \<longrightarrow>
      Alignment_UnmarshalText mapLower a t = (AlignmentRelaxed, None)) \<and>
   (ToLower mapLower t = ''s'' \<longrightarrow>
      Alignment_UnmarshalText mapLower a t = (AlignmentStrict, None)) \<and>
   (ToLower mapLower t \<noteq> ''r'' \<and> ToLower mapLower t \<noteq> ''s'' \<longrightarrow>
      Alignment_UnmarshalText mapLower a t =
        (a, Some (Errorf ''unexpected Alignment value %q'' t))) \<and>
   snd (Alignment_UnmarshalText mapLower a (fst (Alignment_MarshalText AlignmentRelaxed))) \<noteq> None \<and>
   snd (Alignment_UnmarshalText mapLower a (fst (Alignment_MarshalText AlignmentStrict))) \<noteq> None"
  by (simp add: Alignment_UnmarshalText_def Alignment_MarshalText_def member_defs
      ToLower_def lower_defs)

text \<open>The tokens \<^verbatim>\<open>R\<close>, \<^verbatim>\<open>s\<close> and \<^verbatim>\<open>relaxed\<close>.\<close>

theorem C4_Alignment_UnmarshalText_exact_witness:
  "ToLower id ''R'' = ''r'' \<and> Alignment_UnmarshalText id AlignmentStrict ''R'' = (AlignmentRelaxed, None) \<and>
   ToLower id ''s'' = ''s'' \<and> Alignment_UnmarshalText id AlignmentRelaxed ''s'' = (AlignmentStrict, None) \<and>
   ToLower id ''relaxed'' \<noteq> ''r'' \<and> ToLower id ''relaxed'' \<noteq> ''s'' \<and>
   Alignment_UnmarshalText id AlignmentStrict ''relaxed'' =
     (AlignmentStrict, Some (Errorf ''unexpected Alignment value %q'' ''relaxed''))"
proof -
  have l: "ToLower id ''R'' = ''r''" "ToLower id ''s'' = ''s''"
    "ToLower id ''relaxed'' \<noteq> ''r''" "ToLower id ''relaxed'' \<noteq> ''s''"
    by code_simp+
  show ?thesis
    using l C4_Alignment_UnmarshalText_exact [of id "''R''" AlignmentStrict]
      C4_Alignment_UnmarshalText_exact [of id "''s''" AlignmentRelaxed]
      C4_Alignment_UnmarshalText_exact [of id "''relaxed''" AlignmentStrict]
    by simp
qed

section \<open>Decoding of PolicyOverride\<close>

lemma PolicyOverride_tokens:
  "isASCII ''forwarded'' \<and> \<not> hasUpper ''forwarded''"
  "isASCII ''sampled_out'' \<and> \<not> hasUpper ''sampled_out''"
  "isASCII ''trusted_forwarder'' \<and> \<not> hasUpper ''trusted_forwarder''"
  "isASCII ''mailing_list'' \<and> \<not> hasUpper ''mailing_list''"
  "isASCII ''local_policy'' \<and> \<not> hasUpper ''local_policy''"
  "isASCII ''other'' \<and> \<not> hasUpper ''other''"
  by (simp_all add: lower_defs)

lemma PolicyOverride_UnmarshalText_lower:
  "PolicyOverride_UnmarshalText mapLower po t =
     (if ToLower mapLower t = ''forwarded'' then (PolicyOverrideForwarded, None)
      else if ToLower mapLower t = ''sampled_out'' then (PolicyOverrideSampledOut, None)
      else if ToLower mapLower t = ''trusted_forwarder'' then (PolicyOverrideTrustedForwarder, None)
      else if ToLower mapLower t = ''mailing_list'' then (PolicyOverrideMailingList, None)
      else if ToLower mapLower t = ''local_policy'' then (PolicyOverrideLocalPolicy, None)
      else if ToLower mapLower t = ''other'' then (PolicyOverrideOther, None)
      else (po, Some (Errorf ''unexpected PolicyOverride value %q'' t)))"
  by (simp add: PolicyOverride_UnmarshalText_def Let_def)

text \<open>
  Claim C5. A token whose lower-case form is none of \<^verbatim>\<open>forwarded\<close>, \<^verbatim>\<open>sampled_out\<close>,
  \<^verbatim>\<open>trusted_forwarder\<close>, \<^verbatim>\<open>mailing_list\<close>, \<^verbatim>\<open>local_policy\<close> and \<^verbatim>\<open>other\<close> makes
  \<^verbatim>\<open>PolicyOverride.UnmarshalText\<close> return the error for an unexpected
  \<^verbatim>\<open>PolicyOverride\<close> value; each of the six tokens, in any letter case, is decoded to its
  member with a nil error.
\<close>

theorem C5_PolicyOverride_UnmarshalText_vocabulary:
  "(ToLower mapLower t \<notin> set PolicyOverride_vocabulary \<longrightarrow>
      PolicyOverride_UnmarshalText mapLower po t =
        (po, Some (Errorf ''unexpected PolicyOverride value %q'' t))) \<and>
   (ToLower mapLower t = ''forwarded'' \<or> differs_only_in_case t ''forwarded'' \<longrightarrow>
      PolicyOverride_UnmarshalText mapLower po t = (PolicyOverrideForwarded, None)) \<and>
   (ToLower mapLower t = ''sampled_out'' \<or> differs_only_in_case t ''sampled_out'' \<longrightarrow>
      PolicyOverride_UnmarshalText mapLower po t = (PolicyOverrideSampledOut, None)) \<and>
   (ToLower mapLower t = ''trusted_forwarder'' \<or> differs_only_in_case t ''trusted_forwarder'' \<longrightarrow>
      PolicyOverride_UnmarshalText mapLower po t = (PolicyOverrideTrustedForwarder, None)) \<and>
   (ToLower mapLower t = ''mailing_list'' \<or> differs_only_in_case t ''mailing_list'' \<longrightarrow>
      PolicyOverride_UnmarshalText mapLower po t = (PolicyOverrideMailingList, None)) \<and>
   (ToLower mapLower t = ''local_policy'' \<or> differs_only_in_case t ''local_policy'' \<longrightarrow>
      PolicyOverride_UnmarshalText mapLower po t = (PolicyOverrideLocalPolicy, None)) \<and>
   (ToLower mapLower t = ''other'' \<or> differs_only_in_case t ''other'' \<longrightarrow>
      PolicyOverride_UnmarshalText mapLower po t = (PolicyOverrideOther, None))"
proof -
  have unknown: "ToLower mapLower t \<notin> set PolicyOverride_vocabulary \<longrightarrow>
      PolicyOverride_UnmarshalText mapLower po t =
        (po, Some (Errorf ''unexpected PolicyOverride value %q'' t))"
    by (simp add: PolicyOverride_UnmarshalText_lower PolicyOverride_vocabulary_def)
  have known: "ToLower mapLower t = tok" if "differs_only_in_case t tok" "isASCII tok \<and> \<not> hasUpper tok" for tok
    using that by (simp add: ToLower_differs)
  show ?thesis
    using unknown known PolicyOverride_tokens
    by (auto simp: PolicyOverride_UnmarshalText_lower)
qed

text \<open>The token \<^verbatim>\<open>spam\<close>, and each of the six tokens in some other letter case.\<close>

theorem C5_PolicyOverride_UnmarshalText_vocabulary_witness:
  "ToLower id ''spam'' \<notin> set PolicyOverride_vocabulary \<and>
   PolicyOverride_UnmarshalText id PolicyOverrideOther ''spam'' =
     (PolicyOverrideOther, Some (Errorf ''unexpected PolicyOverride value %q'' ''spam'')) \<and>
   differs_only_in_case ''FORWARDED'' ''forwarded'' \<and>
   PolicyOverride_UnmarshalText id PolicyOverrideOther ''FORWARDED'' =
     (PolicyOverrideForwarded, None) \<and>
   differs_only_in_case ''Sampled_Out'' ''sampled_out'' \<and>
   PolicyOverride_UnmarshalText id PolicyOverrideOther ''Sampled_Out'' =
     (PolicyOverrideSampledOut, None) \<and>
   differs_only_in_case ''Trusted_Forwarder'' ''trusted_forwarder'' \<and>
   PolicyOverride_UnmarshalText id PolicyOverrideOther ''Trusted_Forwarder'' =
     (PolicyOverrideTrustedForwarder, None) \<and>
   differs_only_in_case ''Mailing_List'' ''mailing_list'' \<and>
   PolicyOverride_UnmarshalText id PolicyOverrideOther ''Mailing_List'' =
     (PolicyOverrideMailingList, None) \<and>
   differs_only_in_case ''LOCAL_policy'' ''local_policy'' \<and>
   PolicyOverride_UnmarshalText id PolicyOverrideOther ''LOCAL_policy'' =
     (PolicyOverrideLocalPolicy, None) \<and>
   differs_only_in_case ''oTHER'' ''other'' \<and>
   PolicyOverride_UnmarshalText id PolicyOverrideForwarded ''oTHER'' =
     (PolicyOverrideOther, None)"
proof -
  have l: "ToLower id ''spam'' \<notin> set PolicyOverride_vocabulary"
    "differs_only_in_case ''FORWARDED'' ''forwarded''"
    "differs_only_in_case ''Sampled_Out'' ''sampled_out''"
    "differs_only_in_case ''Trusted_Forwarder'' ''trusted_forwarder''"
    "differs_only_in_case ''Mailing_List'' ''mailing_list''"
    "differs_only_in_case ''LOCAL_policy'' ''local_policy''"
    "differs_only_in_case ''oTHER'' ''other''"
    by code_simp+
  show ?thesis
    using l C5_PolicyOverride_UnmarshalText_vocabulary [of id "''spam''" PolicyOverrideOther]
      C5_PolicyOverride_UnmarshalText_vocabulary [of id "''FORWARDED''" PolicyOverrideOther]
      C5_PolicyOverride_UnmarshalText_vocabulary [of id "''Sampled_Out''" PolicyOverrideOther]
      C5_PolicyOverride_UnmarshalText_vocabulary [of id "''Trusted_Forwarder''" PolicyOverrideOther]
      C5_PolicyOverride_UnmarshalText_vocabulary [of id "''Mailing_List''" PolicyOverrideOther]
      C5_PolicyOverride_UnmarshalText_vocabulary [of id "''LOCAL_policy''" PolicyOverrideOther]
      C5_PolicyOverride_UnmarshalText_vocabulary [of id "''oTHER''" PolicyOverrideForwarded]
    by simp
qed

section \<open>Encoding of values outside the member set\<close>

text \<open>
  Claim C6. For each of the six integer enumerations and every integer value,
  \<^verbatim>\<open>MarshalText\<close> returns a nil error, and the token is \<^verbatim>\<open>unknown\<close> exactly when the
  value is none of the enumeration's defined members.
\<close>

theorem C6_MarshalText_never_errors:
  "snd (Alignment_MarshalText v) = None \<and>
   ((fst (Alignment_MarshalText v) = ''unknown'') = (v \<notin> set Alignment_members)) \<and>
   snd (Disposition_MarshalText v) = None \<and>
   ((fst (Disposition_MarshalText v) = ''unknown'') = (v \<notin> set Disposition_members)) \<and>
   snd (PolicyOverride_MarshalText v) = None \<and>
   ((fst (PolicyOverride_MarshalText v) = ''unknown'') = (v \<notin> set PolicyOverride_members)) \<and>
   snd (DKIMResult_MarshalText v) = None \<and>
   ((fst (DKIMResult_MarshalText v) = ''unknown'') = (v \<notin> set DKIMResult_members)) \<and>
   snd (SPFDomainScope_MarshalText v) = None \<and>
   ((fst (SPFDomainScope_MarshalText v) = ''unknown'') = (v \<notin> set SPFDomainScope_members)) \<and>
   snd (SPFResult_MarshalText v) = None \<and>
   ((fst (SPFResult_MarshalText v) = ''unknown'') = (v \<notin> set SPFResult_members))"
  by (simp add: Alignment_MarshalText_def Disposition_MarshalText_def
      PolicyOverride_MarshalText_def DKIMResult_MarshalText_def SPFDomainScope_MarshalText_def
      SPFResult_MarshalText_def member_defs)

text \<open>The values 7 and -1 are no members; 5 is \<^verbatim>\<open>DKIMResultTempError\<close>.\<close>

theorem C6_MarshalText_never_errors_witness:
  "Disposition_MarshalText 7 = (''unknown'', None) \<and> 7 \<notin> set Disposition_members \<and>
   SPFResult_MarshalText (- 1) = (''unknown'', None) \<and> - 1 \<notin> set SPFResult_members \<and>
   DKIMResult_MarshalText 5 = (''temperror'', None) \<and> DKIMResultTempError \<in> set DKIMResult_members"
proof -
  have m: "7 \<notin> set Disposition_members" "- 1 \<notin> set SPFResult_members"
    "DKIMResultTempError \<in> set DKIMResult_members" "DKIMResultTempError = 5"
    by (simp_all add: member_defs)
  have e: "fst (DKIMResult_MarshalText 5) = ''temperror''"
    by (simp add: DKIMResult_MarshalText_def member_defs)
  show ?thesis
    using m e C6_MarshalText_never_errors [of 7] C6_MarshalText_never_errors [of "- 1"]
      C6_MarshalText_never_errors [of 5]
    by (simp add: prod_eq_iff)
qed

section \<open>What a decode error says\<close>

text \<open>
  The errors of \<^verbatim>\<open>Alignment\<close>, \<^verbatim>\<open>Disposition\<close>, \<^verbatim>\<open>PolicyOverride\<close>,
  \<^verbatim>\<open>SPFDomainScope\<close> and \<^verbatim>\<open>SPFResult\<close> name their own enumeration and carry the raw
  token. The error of \<^verbatim>\<open>DKIMResult\<close> carries the raw token and the name \<^verbatim>\<open>SPFResult\<close>.
\<close>

lemma format_names:
  "sublist ''Alignment'' ''unexpected Alignment value %q''"
  "sublist ''Disposition'' ''unexpected Disposition value %q''"
  "sublist ''PolicyOverride'' ''unexpected PolicyOverride value %q''"
  "sublist ''SPFDomainScope'' ''unexpected SPFDomainScope value %q''"
  "sublist ''SPFResult'' ''unexpected SPFResult value %q''"
  "\<not> sublist ''DKIMResult'' ''unexpected SPFResult value %q''"
  by code_simp+

lemma sibling_errors_name_their_enum:
  "snd (Alignment_UnmarshalText mapLower v t) = Some e \<Longrightarrow>
     names_enum ''Alignment'' e \<and> raw_token e = t"
  "snd (Disposition_UnmarshalText mapLower v t) = Some e \<Longrightarrow>
     names_enum ''Disposition'' e \<and> raw_token e = t"
  "snd (PolicyOverride_UnmarshalText mapLower v t) = Some e \<Longrightarrow>
     names_enum ''PolicyOverride'' e \<and> raw_token e = t"
  "snd (SPFDomainScope_UnmarshalText mapLower v t) = Some e \<Longrightarrow>
     names_enum ''SPFDomainScope'' e \<and> raw_token e = t"
  "snd (SPFResult_UnmarshalText mapLower v t) = Some e \<Longrightarrow>
     names_enum ''SPFResult'' e \<and> raw_token e = t"
  using format_names
  by (auto simp: Alignment_UnmarshalText_def Disposition_UnmarshalText_def
      PolicyOverride_UnmarshalText_def SPFDomainScope_UnmarshalText_def
      SPFResult_UnmarshalText_def Let_def names_enum_def raw_token_def split: if_splits)

lemma DKIMResult_error_never_names_DKIMResult:
  "snd (DKIMResult_UnmarshalText mapLower v t) = Some e \<Longrightarrow>
     \<not> names_enum ''DKIMResult'' e \<and> names_enum ''SPFResult'' e \<and> raw_token e = t"
  using format_names
  by (auto simp: DKIMResult_UnmarshalText_def Let_def names_enum_def raw_token_def
      split: if_splits)

text \<open>
  Claim C7 says that the error of a failed decode names the enumeration that failed and
  the rejected token, for \<^verbatim>\<open>DKIMResult\<close> in particular. On the token \<^verbatim>\<open>bogus\<close>,
  \<^verbatim>\<open>DKIMResult.UnmarshalText\<close> returns the error for an unexpected \<^verbatim>\<open>SPFResult\<close> value:
  the same error as \<^verbatim>\<open>SPFResult.UnmarshalText\<close>, and one that does not name
  \<^verbatim>\<open>DKIMResult\<close>.
\<close>

theorem C7_DKIMResult_error_names_SPFResult:
  "DKIMResult_UnmarshalText id DKIMResultNone ''bogus'' =
     (DKIMResultNone, Some (Errorf ''unexpected SPFResult value %q'' ''bogus'')) \<and>
   \<not> names_enum ''DKIMResult'' (the (snd (DKIMResult_UnmarshalText id DKIMResultNone ''bogus''))) \<and>
   names_enum ''SPFResult'' (the (snd (DKIMResult_UnmarshalText id DKIMResultNone ''bogus''))) \<and>
   snd (DKIMResult_UnmarshalText id DKIMResultNone ''bogus'') =
     snd (SPFResult_UnmarshalText id SPFResultNone ''bogus'')"
proof -
  have l: "ToLower id ''bogus'' = ''bogus''"
    by code_simp
  have d: "DKIMResult_UnmarshalText id DKIMResultNone ''bogus'' =
     (DKIMResultNone, Some (Errorf ''unexpected SPFResult value %q'' ''bogus''))"
    by (simp add: DKIMResult_UnmarshalText_def l)
  have s: "SPFResult_UnmarshalText id SPFResultNone ''bogus'' =
     (SPFResultNone, Some (Errorf ''unexpected SPFResult value %q'' ''bogus''))"
    by (simp add: SPFResult_UnmarshalText_def l)
  show ?thesis
    using format_names by (simp add: d s names_enum_def)
qed

section \<open>Case-insensitive decoding\<close>










section \<open>The zero value of SPFDomainScope\<close>

text \<open>
  Claim C9. The zero value of \<^verbatim>\<open>SPFDomainScope\<close> is \<^verbatim>\<open>SPFDomainScopeHelo\<close>: the scope
  of an \<^verbatim>\<open>SPFAuthResult\<close> that no decode has written is the member \<^verbatim>\<open>helo\<close>, and it is
  encoded to the token \<^verbatim>\<open>helo\<close> with a nil error.
\<close>

theorem C9_SPFDomainScope_zero_value_is_helo:
  "SPFDomainScopeHelo = 0 \<and>
   Scope SPFAuthResult_zero = SPFDomainScopeHelo \<and>
   SPFDomainScope_MarshalText (Scope SPFAuthResult_zero) = (''helo'', None)"
  by (simp add: SPFAuthResult_zero_def SPFDomainScopeHelo_def SPFDomainScope_MarshalText_def)

section \<open>A failed decode leaves the receiver alone\<close>

text \<open>
  Claim C10. For the six strict enumerations, every stored value and every token: when
  \<^verbatim>\<open>UnmarshalText\<close> returns an error, the value stored behind the receiver is the one
  stored before the call.
\<close>

theorem C10_decode_failure_keeps_value:
  "(snd (Alignment_UnmarshalText mapLower v t) \<noteq> None \<longrightarrow>
      fst (Alignment_UnmarshalText mapLower v t) = v) \<and>
   (snd (Disposition_UnmarshalText mapLower v t) \<noteq> None \<longrightarrow>
      fst (Disposition_UnmarshalText mapLower v t) = v) \<and>
   (snd (PolicyOverride_UnmarshalText mapLower v t) \<noteq> None \<longrightarrow>
      fst (PolicyOverride_UnmarshalText mapLower v t) = v) \<and>
   (snd (DKIMResult_UnmarshalText mapLower v t) \<noteq> None \<longrightarrow>
      fst (DKIMResult_UnmarshalText mapLower v t) = v) \<and>
   (snd (SPFDomainScope_UnmarshalText mapLower v t) \<noteq> None \<longrightarrow>
      fst (SPFDomainScope_UnmarshalText mapLower v t) = v) \<and>
   (snd (SPFResult_UnmarshalText mapLower v t) \<noteq> None \<longrightarrow>
      fst (SPFResult_UnmarshalText mapLower v t) = v)"
  by (simp add: Alignment_UnmarshalText_def Disposition_UnmarshalText_def
      PolicyOverride_UnmarshalText_def DKIMResult_UnmarshalText_def
      SPFDomainScope_UnmarshalText_def SPFResult_UnmarshalText_def Let_def)

text \<open>The token \<^verbatim>\<open>bogus\<close> is rejected by all six, and the stored 1 stays.\<close>

theorem C10_decode_failure_keeps_value_witness:
  "snd (Alignment_UnmarshalText id 1 ''bogus'') \<noteq> None \<and>
   fst (Alignment_UnmarshalText id 1 ''bogus'') = 1 \<and>
   snd (Disposition_UnmarshalText id 1 ''bogus'') \<noteq> None \<and>
   fst (Disposition_UnmarshalText id 1 ''bogus'') = 1 \<and>
   snd (PolicyOverride_UnmarshalText id 1 ''bogus'') \<noteq> None \<and>
   fst (PolicyOverride_UnmarshalText id 1 ''bogus'') = 1 \<and>
   snd (DKIMResult_UnmarshalText id 1 ''bogus'') \<noteq> None \<and>
   fst (DKIMResult_UnmarshalText id 1 ''bogus'') = 1 \<and>
   snd (SPFDomainScope_UnmarshalText id 1 ''bogus'') \<noteq> None \<and>
   fst (SPFDomainScope_UnmarshalText id 1 ''bogus'') = 1 \<and>
   snd (SPFResult_UnmarshalText id 1 ''bogus'') \<noteq> None \<and>
   fst (SPFResult_UnmarshalText id 1 ''bogus'') = 1"
proof -
  have l: "ToLower id ''bogus'' = ''bogus''"
    by code_simp
  have e: "snd (Alignment_UnmarshalText id 1 ''bogus'') \<noteq> None"
    "snd (Disposition_UnmarshalText id 1 ''bogus'') \<noteq> None"
    "snd (PolicyOverride_UnmarshalText id 1 ''bogus'') \<noteq> None"
    "snd (DKIMResult_UnmarshalText id 1 ''bogus'') \<noteq> None"
    "snd (SPFDomainScope_UnmarshalText id 1 ''bogus'') \<noteq> None"
    "snd (SPFResult_UnmarshalText id 1 ''bogus'') \<noteq> None"
    by (simp_all add: Alignment_UnmarshalText_def Disposition_UnmarshalText_def
        PolicyOverride_UnmarshalText_def DKIMResult_UnmarshalText_def
        SPFDomainScope_UnmarshalText_def SPFResult_UnmarshalText_def l)
  show ?thesis
    using e C10_decode_failure_keeps_value [of id 1 "''bogus''"] by simp
qed

end
